theory Spec2Isabelle
  imports Main
begin

section \<open>The wallet hook \<open>useEnvWallet\<close>: data model\<close>

text \<open>
  A JavaScript string is modelled as the list of its code units, all of them below 256.
  A value of type \<open>string | undefined\<close> or \<open>string | null\<close> is a \<open>string option\<close>.
\<close>

text \<open>A thrown value: an \<open>Error\<close> with its message, or a value that is not an \<open>Error\<close>.\<close>

datatype exn = Error string | Thrown

datatype provider = JsonRpcProvider string

record wallet =
  address :: string
  walletProvider :: provider

datatype balance_entry = BalanceEntry (balance: string) (currency: string)

type_synonym balances = "string \<rightharpoonup> balance_entry"

record EnvWalletState =
  userWallet :: "wallet option"
  relayerWallet :: "wallet option"
  provider :: "provider option"
  isConfigured :: bool
  userAddress :: "string option"
  relayerAddress :: "string option"
  userBalance :: "string option"
  relayerBalance :: "string option"
  multiNetworkBalances :: "balances option"
  chainId :: "nat option"
  error :: "string option"
  currentUserPrivateKey :: "string option"

definition initialState :: EnvWalletState where
  "initialState =
     \<lparr>userWallet = None, relayerWallet = None, provider = None, isConfigured = False,
      userAddress = None, relayerAddress = None, userBalance = None, relayerBalance = None,
      multiNetworkBalances = None, chainId = None, error = None,
      currentUserPrivateKey = None\<rparr>"

text \<open>
  The collaborators the hook calls but does not implement (the \<open>ethers\<close> library): the two
  constructors, which may throw, and the formatting of an amount. The outcome of an
  awaited query is not a function of its arguments; it is given where the query settles,
  as \<open>Inl\<close> for a rejection and \<open>Inr\<close> for the value.
\<close>

record ext =
  newProvider :: "string \<Rightarrow> exn + provider"
  newWallet :: "string \<Rightarrow> provider \<Rightarrow> exn + wallet"
  formatEther :: "nat \<Rightarrow> string"

text \<open>\<open>import.meta.env\<close>: the variables that are set, by name.\<close>

type_synonym env = "string \<rightharpoonup> string"

subsection \<open>JavaScript helpers\<close>

text \<open>
  Truthiness of an optional string, \<open>a || b\<close> between two of them, and \<open>a || d\<close> with a
  literal \<open>d\<close> that is not empty.
\<close>

definition truthy :: "string option \<Rightarrow> bool" where
  "truthy v = (case v of None \<Rightarrow> False | Some s \<Rightarrow> s \<noteq> [])"

definition or_js :: "string option \<Rightarrow> string option \<Rightarrow> string option" where
  "or_js a b = (if truthy a then a else b)"

definition or_default :: "string option \<Rightarrow> string \<Rightarrow> string" where
  "or_default a d = (case a of None \<Rightarrow> d | Some s \<Rightarrow> if s \<noteq> [] then s else d)"

text \<open>\<open>String.prototype.trim\<close>, with the white space and line terminators below 256.\<close>

definition isWhiteSpace :: "char \<Rightarrow> bool" where
  "isWhiteSpace c =
     (c \<in> set [CHR 0x09, CHR 0x0A, CHR 0x0B, CHR 0x0C, CHR 0x0D, CHR 0x20, CHR 0xA0])"

definition trim :: "string \<Rightarrow> string" where
  "trim s = rev (dropWhile isWhiteSpace (rev (dropWhile isWhiteSpace s)))"

text \<open>\<open>error instanceof Error ? error.message : fallback\<close>.\<close>

definition message :: "exn \<Rightarrow> string \<Rightarrow> string" where
  "message e fallback = (case e of Error m \<Rightarrow> m | Thrown \<Rightarrow> fallback)"

text \<open>
  \<open>Promise.all\<close> over promises that have settled: the values in the order of the array,
  or a rejection when one of them is rejected.
\<close>

fun promise_all :: "(exn + 'a) list \<Rightarrow> exn + 'a list" where
  "promise_all [] = Inr []"
| "promise_all (Inl e # ps) = Inl e"
| "promise_all (Inr v # ps) = (case promise_all ps of Inl e \<Rightarrow> Inl e | Inr vs \<Rightarrow> Inr (v # vs))"

section \<open>The network catalog\<close>

record network =
  netId :: nat
  netName :: string
  rpcUrl :: string
  netCurrency :: string
  relayerKey :: "string option"

definition NETWORKS :: "env \<Rightarrow> network list" where
  "NETWORKS e =
    [\<lparr>netId = 56, netName = ''BSC'',
      rpcUrl = or_default (e ''VITE_RPC_URL'') ''https://bsc-dataseed1.binance.org'',
      netCurrency = ''BNB'',
      relayerKey = e ''VITE_RELAYER_PRIVATE_KEY''\<rparr>,
     \<lparr>netId = 1, netName = ''Ethereum'',
      rpcUrl = or_default (e ''VITE_ETHEREUM_RPC_URL'') ''https://eth.llamarpc.com'',
      netCurrency = ''ETH'',
      relayerKey = or_js (e ''VITE_ETHEREUM_RELAYER_PRIVATE_KEY'') (e ''VITE_RELAYER_PRIVATE_KEY'')\<rparr>,
     \<lparr>netId = 11155111, netName = ''Sepolia'',
      rpcUrl = or_default (e ''VITE_SEPOLIA_RPC_URL'')
        ''https://sepolia.infura.io/v3/9aa3d95b3bc440fa88ea12eaa4456161'',
      netCurrency = ''ETH'',
      relayerKey = or_js (e ''VITE_SEPOLIA_RELAYER_PRIVATE_KEY'') (e ''VITE_RELAYER_PRIVATE_KEY'')\<rparr>,
     \<lparr>netId = 42161, netName = ''Arbitrum'',
      rpcUrl = or_default (e ''VITE_ARBITRUM_RPC_URL'') ''https://arb1.arbitrum.io/rpc'',
      netCurrency = ''ETH'',
      relayerKey = or_js (e ''VITE_ARBITRUM_RELAYER_PRIVATE_KEY'') (e ''VITE_RELAYER_PRIVATE_KEY'')\<rparr>,
     \<lparr>netId = 8453, netName = ''Base'',
      rpcUrl = or_default (e ''VITE_BASE_RPC_URL'') ''https://mainnet.base.org'',
      netCurrency = ''ETH'',
      relayerKey = or_js (e ''VITE_BASE_RELAYER_PRIVATE_KEY'') (e ''VITE_RELAYER_PRIVATE_KEY'')\<rparr>,
     \<lparr>netId = 137, netName = ''Polygon'',
      rpcUrl = or_default (e ''VITE_POLYGON_RPC_URL'') ''https://polygon-rpc.com'',
      netCurrency = ''MATIC'',
      relayerKey = or_js (e ''VITE_POLYGON_RELAYER_PRIVATE_KEY'') (e ''VITE_RELAYER_PRIVATE_KEY'')\<rparr>,
     \<lparr>netId = 10, netName = ''Optimism'',
      rpcUrl = or_default (e ''VITE_OPTIMISM_RPC_URL'') ''https://mainnet.optimism.io'',
      netCurrency = ''ETH'',
      relayerKey = or_js (e ''VITE_OPTIMISM_RELAYER_PRIVATE_KEY'') (e ''VITE_RELAYER_PRIVATE_KEY'')\<rparr>]"

section \<open>\<open>fetchMultiNetworkBalances\<close>\<close>

text \<open>The character class \<open>[0-9a-fA-F]\<close>.\<close>

definition hexClass :: "char \<Rightarrow> bool" where
  "hexClass c = (c \<in> set ''0123456789abcdefABCDEF'')"

text \<open>\<open>/^[0-9a-fA-F]{64}$/.test(s)\<close>; without the \<open>m\<close> flag, \<open>$\<close> is the end of the input.\<close>

definition test64 :: "string \<Rightarrow> bool" where
  "test64 s = (length s = 64 \<and> list_all hexClass s)"

definition cleanKey :: "string \<Rightarrow> string" where
  "cleanKey k = (if take 2 k = ''0x'' then drop 2 k else k)"

definition validKeyFormat :: "string \<Rightarrow> bool" where
  "validKeyFormat k = test64 (cleanKey k)"

text \<open>The first guard of the per-network function: no key, a blank key or a placeholder.\<close>

definition noRelayerKey :: "string option \<Rightarrow> bool" where
  "noRelayerKey k =
     (case k of None \<Rightarrow> True
      | Some s \<Rightarrow> s = [] \<or> trim s = [] \<or> s = ''0x...'' \<or> s = ''0x'')"

datatype rpc_call = OpenConnection string | DeriveAccount string | QueryBalance string

text \<open>
  One run of the function mapped over \<open>NETWORKS\<close>: the calls it makes to the collaborators,
  how its promise settles, and the entry it writes into the shared \<open>balances\<close> object, if
  any. \<open>q\<close> is the outcome of \<open>provider.getBalance\<close> for this network.
\<close>

definition fallbackEntry :: "network \<Rightarrow> balance_entry" where
  "fallbackEntry n = BalanceEntry ''0.0000'' (netCurrency n)"

definition fetchNetwork ::
  "ext \<Rightarrow> (exn + nat) \<Rightarrow> network \<Rightarrow> rpc_call list \<times> (exn + balance_entry option)" where
  "fetchNetwork x q n =
     (if noRelayerKey (relayerKey n) then ([], Inr None)
      else let k = the (relayerKey n) in
        if \<not> validKeyFormat k then ([], Inr None)
        else
          (case newProvider x (rpcUrl n) of
             Inl e \<Rightarrow> ([OpenConnection (rpcUrl n)], Inr (Some (fallbackEntry n)))
           | Inr p \<Rightarrow>
              (case newWallet x k p of
                 Inl e \<Rightarrow>
                   ([OpenConnection (rpcUrl n), DeriveAccount k], Inr (Some (fallbackEntry n)))
               | Inr w \<Rightarrow>
                  ([OpenConnection (rpcUrl n), DeriveAccount k, QueryBalance (address w)],
                   (case q of
                      Inl e \<Rightarrow> Inr (Some (fallbackEntry n))
                    | Inr b \<Rightarrow> Inr (Some (BalanceEntry (formatEther x b) (netCurrency n))))))))"

text \<open>
  The writes of the settled functions into \<open>balances\<close>, each under its network's name, and
  the trace of the calls, each tagged with the name of the network that made it. The
  functions settle in any order; \<open>collect\<close> is given the order, and the batch uses the one
  of the array (by \<open>collect_order\<close> below every order gives the same object).
\<close>

definition writeEntry :: "ext \<Rightarrow> (string \<Rightarrow> exn + nat) \<Rightarrow> network \<Rightarrow> balances \<Rightarrow> balances" where
  "writeEntry x q n m =
     (case snd (fetchNetwork x (q (netName n)) n) of
        Inr (Some b) \<Rightarrow> m(netName n \<mapsto> b)
      | _ \<Rightarrow> m)"

definition collect :: "ext \<Rightarrow> (string \<Rightarrow> exn + nat) \<Rightarrow> network list \<Rightarrow> balances" where
  "collect x q ns = fold (writeEntry x q) ns Map.empty"

definition callsOf :: "ext \<Rightarrow> (string \<Rightarrow> exn + nat) \<Rightarrow> network list \<Rightarrow> (string \<times> rpc_call) list" where
  "callsOf x q ns =
     concat (map (\<lambda>n. map (Pair (netName n)) (fst (fetchNetwork x (q (netName n)) n))) ns)"

text \<open>
  The batch: \<open>await Promise.all(promises)\<close>, then the commit that replaces
  \<open>multiNetworkBalances\<close>. A rejection of \<open>Promise.all\<close> would leave the function without a
  commit (\<open>None\<close>). The result is the trace of calls and the committed update.
\<close>

definition fetchMultiNetworkBalances ::
  "ext \<Rightarrow> env \<Rightarrow> (string \<Rightarrow> exn + nat) \<Rightarrow>
     (string \<times> rpc_call) list \<times> (balances \<times> (EnvWalletState \<Rightarrow> EnvWalletState)) option" where
  "fetchMultiNetworkBalances x e q =
     (let ns = NETWORKS e in
      (callsOf x q ns,
       (case promise_all (map (\<lambda>n. snd (fetchNetwork x (q (netName n)) n)) ns) of
          Inl err \<Rightarrow> None
        | Inr _ \<Rightarrow>
            Some (collect x q ns,
                  \<lambda>prev. prev\<lparr>multiNetworkBalances := Some (collect x q ns)\<rparr>))))"


section \<open>\<open>initializeProvider\<close>\<close>

definition initCatch :: "exn \<Rightarrow> EnvWalletState \<Rightarrow> EnvWalletState" where
  "initCatch err prev = prev\<lparr>error := Some (message err ''Failed to initialize provider'')\<rparr>"

definition initConfigError :: "EnvWalletState \<Rightarrow> EnvWalletState" where
  "initConfigError prev =
     prev\<lparr>error :=
       Some ''Please configure VITE_RELAYER_PRIVATE_KEY and VITE_RPC_URL in .env file''\<rparr>"

definition initCommit ::
  "ext \<Rightarrow> provider \<Rightarrow> wallet \<Rightarrow> nat \<Rightarrow> nat \<Rightarrow> EnvWalletState \<Rightarrow> EnvWalletState" where
  "initCommit x p w c b prev =
     prev\<lparr>relayerWallet := Some w, provider := Some p, relayerAddress := Some (address w),
          relayerBalance := Some (formatEther x b), chainId := Some c, error := None\<rparr>"

text \<open>
  The function up to its first \<open>await\<close>: either it has committed already (\<open>Inl\<close>, the
  update), or it holds a provider and a relayer wallet and awaits \<open>getNetwork\<close>.
\<close>

definition initializeProvider_start ::
  "ext \<Rightarrow> env \<Rightarrow> (EnvWalletState \<Rightarrow> EnvWalletState) + (provider \<times> wallet)" where
  "initializeProvider_start x e =
     (let relayerPrivateKey = e ''VITE_RELAYER_PRIVATE_KEY''; url = e ''VITE_RPC_URL'' in
      if \<not> truthy relayerPrivateKey \<or> \<not> truthy url then Inl initConfigError
      else
        (case newProvider x (the url) of
           Inl err \<Rightarrow> Inl (initCatch err)
         | Inr p \<Rightarrow>
            (case newWallet x (the relayerPrivateKey) p of
               Inl err \<Rightarrow> Inl (initCatch err)
             | Inr w \<Rightarrow> Inr (p, w))))"

text \<open>The rest: \<open>net\<close> is how \<open>getNetwork\<close> settles (the chain id), \<open>bal\<close> how \<open>getBalance\<close> does.\<close>

definition initializeProvider_resume ::
  "ext \<Rightarrow> provider \<Rightarrow> wallet \<Rightarrow> (exn + nat) \<Rightarrow> (exn + nat) \<Rightarrow>
     EnvWalletState \<Rightarrow> EnvWalletState" where
  "initializeProvider_resume x p w net bal =
     (case net of
        Inl err \<Rightarrow> initCatch err
      | Inr c \<Rightarrow>
         (case bal of
            Inl err \<Rightarrow> initCatch err
          | Inr b \<Rightarrow> initCommit x p w c b))"

definition initializeProvider ::
  "ext \<Rightarrow> env \<Rightarrow> (exn + nat) \<Rightarrow> (exn + nat) \<Rightarrow> EnvWalletState \<Rightarrow> EnvWalletState" where
  "initializeProvider x e net bal =
     (case initializeProvider_start x e of
        Inl u \<Rightarrow> u
      | Inr (p, w) \<Rightarrow> initializeProvider_resume x p w net bal)"

text \<open>An execution fails when the configuration is incomplete or something throws.\<close>

definition initFails :: "ext \<Rightarrow> env \<Rightarrow> (exn + nat) \<Rightarrow> (exn + nat) \<Rightarrow> bool" where
  "initFails x e net bal =
     (\<not> truthy (e ''VITE_RELAYER_PRIVATE_KEY'') \<or> \<not> truthy (e ''VITE_RPC_URL'') \<or>
      (case newProvider x (the (e ''VITE_RPC_URL'')) of
         Inl err \<Rightarrow> True
       | Inr p \<Rightarrow>
          (case newWallet x (the (e ''VITE_RELAYER_PRIVATE_KEY'')) p of
             Inl err \<Rightarrow> True
           | Inr w \<Rightarrow> isl net \<or> isl bal)))"

section \<open>Pending work\<close>

datatype role = User | Relayer

datatype task =
    AwaitInit provider wallet
  | RetryTimer nat string
  | UserBalanceQuery provider string
  | RefreshQueries provider "(role \<times> string) list"
  | FetchBatch

section \<open>\<open>updateUserPrivateKey\<close>\<close>

definition clearUser :: "EnvWalletState \<Rightarrow> EnvWalletState" where
  "clearUser prev =
     prev\<lparr>currentUserPrivateKey := Some [], userWallet := None, userAddress := None,
          userBalance := None, isConfigured := False\<rparr>"

definition installUser :: "string \<Rightarrow> wallet \<Rightarrow> EnvWalletState \<Rightarrow> EnvWalletState" where
  "installUser newPrivateKey w prev =
     prev\<lparr>currentUserPrivateKey := Some newPrivateKey, userWallet := Some w,
          userAddress := Some (address w),
          isConfigured :=
            (relayerWallet prev \<noteq> None \<and> provider prev \<noteq> None \<and> newPrivateKey \<noteq> []),
          error := None\<rparr>"

definition userCatch :: "string \<Rightarrow> exn \<Rightarrow> EnvWalletState \<Rightarrow> EnvWalletState" where
  "userCatch newPrivateKey err prev =
     prev\<lparr>currentUserPrivateKey := Some newPrivateKey, userWallet := None, userAddress := None,
          userBalance := None, error := Some (message err ''Failed to create user wallet'')\<rparr>"

text \<open>
  One call, on the latest state: the state it commits and the work it leaves pending (the
  retry timer of 100 ms, or the balance query with its \<open>then\<close> and \<open>catch\<close>). When the
  wallet constructor throws inside the update, the update of the \<open>catch\<close> block is the one
  committed.
\<close>

definition updateUserPrivateKey ::
  "ext \<Rightarrow> string \<Rightarrow> EnvWalletState \<Rightarrow> EnvWalletState \<times> task list" where
  "updateUserPrivateKey x newPrivateKey prev =
     (if newPrivateKey = [] \<or> trim newPrivateKey = [] then (clearUser prev, [])
      else
        (case provider prev of
           None \<Rightarrow> (prev, [RetryTimer 100 newPrivateKey])
         | Some p \<Rightarrow>
            (case newWallet x newPrivateKey p of
               Inl err \<Rightarrow> (userCatch newPrivateKey err prev, [])
             | Inr w \<Rightarrow> (installUser newPrivateKey w prev, [UserBalanceQuery p (address w)]))))"

definition userBalanceSettles :: "ext \<Rightarrow> (exn + nat) \<Rightarrow> EnvWalletState \<Rightarrow> EnvWalletState" where
  "userBalanceSettles x r current =
     (case r of
        Inl err \<Rightarrow> current
      | Inr b \<Rightarrow> current\<lparr>userBalance := Some (formatEther x b)\<rparr>)"

section \<open>\<open>refreshBalances\<close>\<close>

definition refreshBalances :: "EnvWalletState \<Rightarrow> EnvWalletState \<times> task list" where
  "refreshBalances prev =
     (case provider prev of
        None \<Rightarrow> (prev, [FetchBatch])
      | Some p \<Rightarrow>
         (prev,
          [RefreshQueries p
             ((case userWallet prev of None \<Rightarrow> [] | Some w \<Rightarrow> [(User, address w)]) @
              (case relayerWallet prev of None \<Rightarrow> [] | Some w \<Rightarrow> [(Relayer, address w)])),
           FetchBatch]))"

text \<open>
  The object \<open>updates\<close> is the pair of its two possible fields, \<open>None\<close> for a field that is
  not set; \<open>{...current, ...updates}\<close> overwrites the fields that are.
\<close>

definition addUpdate ::
  "role \<times> string \<Rightarrow> string option \<times> string option \<Rightarrow> string option \<times> string option" where
  "addUpdate result updates =
     (case fst result of
        User \<Rightarrow> (Some (snd result), snd updates)
      | Relayer \<Rightarrow> (fst updates, Some (snd result)))"

definition mergeResults :: "(role \<times> string) list \<Rightarrow> EnvWalletState \<Rightarrow> EnvWalletState" where
  "mergeResults results current =
     (let updates = fold addUpdate results (None, None) in
      current\<lparr>userBalance := (case fst updates of None \<Rightarrow> userBalance current | Some b \<Rightarrow> Some b),
              relayerBalance :=
                (case snd updates of None \<Rightarrow> relayerBalance current | Some b \<Rightarrow> Some b)\<rparr>)"

definition tagResult :: "ext \<Rightarrow> role \<Rightarrow> (exn + nat) \<Rightarrow> exn + (role \<times> string)" where
  "tagResult x r outcome =
     (case outcome of Inl err \<Rightarrow> Inl err | Inr b \<Rightarrow> Inr (r, formatEther x b))"

text \<open>
  \<open>Promise.all(promises).then(...).catch(...)\<close>: \<open>outcomes\<close> is how the issued queries
  settle, in the order they were issued.
\<close>

definition refreshSettles ::
  "ext \<Rightarrow> role list \<Rightarrow> (exn + nat) list \<Rightarrow> EnvWalletState \<Rightarrow> EnvWalletState" where
  "refreshSettles x roles outcomes current =
     (case promise_all (map (\<lambda>(r, outcome). tagResult x r outcome) (zip roles outcomes)) of
        Inl err \<Rightarrow> current
      | Inr results \<Rightarrow> mergeResults results current)"

section \<open>The hook as a transition system\<close>

text \<open>
  The state container applies each update to the latest committed state. The system is
  that state and the work in flight; an event is a call of one of the four operations
  the hook exposes, or the settling of one piece of pending work with its outcome. Work
  that never settles (a query without an answer) stays pending: no event settles it.
\<close>

record sys =
  walletState :: EnvWalletState
  pendingTasks :: "task list"

datatype operation =
    Initialize
  | UpdateUserPrivateKey string
  | RefreshBalances
  | FetchMultiNetworkBalances

datatype outcome =
    NetworkAndBalance "exn + nat" "exn + nat"
  | Fired
  | Balance "exn + nat"
  | Balances "(exn + nat) list"
  | Batch "string \<Rightarrow> exn + nat"

datatype event = Call operation | Settle task outcome

fun invoke :: "ext \<Rightarrow> env \<Rightarrow> operation \<Rightarrow> EnvWalletState \<Rightarrow> EnvWalletState \<times> task list" where
  "invoke x e Initialize s =
     (case initializeProvider_start x e of
        Inl u \<Rightarrow> (u s, [])
      | Inr (p, w) \<Rightarrow> (s, [AwaitInit p w]))"
| "invoke x e (UpdateUserPrivateKey k) s = updateUserPrivateKey x k s"
| "invoke x e RefreshBalances s = refreshBalances s"
| "invoke x e FetchMultiNetworkBalances s = (s, [FetchBatch])"

fun settle ::
  "ext \<Rightarrow> env \<Rightarrow> task \<Rightarrow> outcome \<Rightarrow> EnvWalletState \<Rightarrow> (EnvWalletState \<times> task list) option" where
  "settle x e (AwaitInit p w) (NetworkAndBalance net bal) s =
     Some (initializeProvider_resume x p w net bal s, [])"
| "settle x e (RetryTimer d k) Fired s = Some (updateUserPrivateKey x k s)"
| "settle x e (UserBalanceQuery p a) (Balance r) s = Some (userBalanceSettles x r s, [])"
| "settle x e (RefreshQueries p qs) (Balances rs) s =
     (if length rs = length qs then Some (refreshSettles x (map fst qs) rs s, []) else None)"
| "settle x e FetchBatch (Batch q) s =
     (case snd (fetchMultiNetworkBalances x e q) of
        None \<Rightarrow> Some (s, [])
      | Some (m, u) \<Rightarrow> Some (u s, []))"
| "settle x e t r s = None"

definition step :: "ext \<Rightarrow> env \<Rightarrow> event \<Rightarrow> sys \<Rightarrow> sys option" where
  "step x e ev s =
     (case ev of
        Call c \<Rightarrow>
          (case invoke x e c (walletState s) of
             (s', ts) \<Rightarrow> Some \<lparr>walletState = s', pendingTasks = pendingTasks s @ ts\<rparr>)
      | Settle t r \<Rightarrow>
          (if t \<in> set (pendingTasks s) then
             (case settle x e t r (walletState s) of
                None \<Rightarrow> None
              | Some (s', ts) \<Rightarrow>
                  Some \<lparr>walletState = s', pendingTasks = remove1 t (pendingTasks s) @ ts\<rparr>)
           else None))"

fun run :: "ext \<Rightarrow> env \<Rightarrow> event list \<Rightarrow> sys \<Rightarrow> sys option" where
  "run x e [] s = Some s"
| "run x e (ev # evs) s = (case step x e ev s of None \<Rightarrow> None | Some s' \<Rightarrow> run x e evs s')"

definition initialSys :: sys where
  "initialSys = \<lparr>walletState = initialState, pendingTasks = []\<rparr>"

text \<open>The effect that runs once when the hook is mounted.\<close>

definition mount :: "event list" where
  "mount = [Call Initialize, Call FetchMultiNetworkBalances]"







text \<open>No user address without a user wallet.\<close>

definition addressFollows :: "EnvWalletState \<Rightarrow> bool" where
  "addressFollows s = (userWallet s = None \<longrightarrow> userAddress s = None)"

section \<open>Sample inputs\<close>

text \<open>
  Collaborators, a configuration and keys to run the definitions on. The sample wallet
  constructor throws for a key that fails the format check and otherwise derives an
  address from the first digits of the key.
\<close>

definition sampleKey :: string where
  "sampleKey = ''0x'' @ replicate 64 (CHR ''b'')"

definition sampleRelayerKey :: string where
  "sampleRelayerKey = replicate 64 (CHR ''a'')"

definition sampleWallet :: "string \<Rightarrow> provider \<Rightarrow> wallet" where
  "sampleWallet k p = \<lparr>address = ''0x'' @ take 4 (cleanKey k), walletProvider = p\<rparr>"

definition sampleExt :: ext where
  "sampleExt =
     \<lparr>newProvider = (\<lambda>u. Inr (JsonRpcProvider u)),
      newWallet = (\<lambda>k p. if validKeyFormat k then Inr (sampleWallet k p)
                          else Inl (Error ''invalid private key'')),
      formatEther = (\<lambda>n. if n = 7 then ''7.0'' else if n = 5 then ''5.0'' else ''1.0'')\<rparr>"

definition sampleEnv :: env where
  "sampleEnv =
     [''VITE_RPC_URL'' \<mapsto> ''https://rpc.example'',
      ''VITE_RELAYER_PRIVATE_KEY'' \<mapsto> sampleRelayerKey]"

definition placeholderEnv :: env where
  "placeholderEnv = sampleEnv(''VITE_POLYGON_RELAYER_PRIVATE_KEY'' \<mapsto> ''0x...'')"

definition sampleProvider :: provider where
  "sampleProvider = JsonRpcProvider ''https://rpc.example''"

definition sampleRelayer :: wallet where
  "sampleRelayer = sampleWallet sampleRelayerKey sampleProvider"

definition sampleUser :: wallet where
  "sampleUser = sampleWallet sampleKey sampleProvider"

text \<open>The balance queries of a batch in which only the one for Ethereum is rejected.\<close>

definition ethereumDown :: "string \<Rightarrow> exn + nat" where
  "ethereumDown nm = (if nm = ''Ethereum'' then Inl (Error ''timeout'') else Inr 5)"


text \<open>The hook mounted and its initialisation settled: chain 56, a relayer balance of 1.\<close>

definition ready :: "event list" where
  "ready =
     mount @
     [Settle (AwaitInit sampleProvider sampleRelayer) (NetworkAndBalance (Inr 56) (Inr 1))]"

definition readyState :: EnvWalletState where
  "readyState =
     initialState\<lparr>relayerWallet := Some sampleRelayer, provider := Some sampleProvider,
       relayerAddress := Some ''0xaaaa'', relayerBalance := Some ''1.0'', chainId := Some 56\<rparr>"

definition readySys :: sys where
  "readySys = \<lparr>walletState = readyState, pendingTasks = [FetchBatch]\<rparr>"

text \<open>The ready state after the sample key has been installed.\<close>

definition installedState :: EnvWalletState where
  "installedState =
     readyState\<lparr>currentUserPrivateKey := Some sampleKey, userWallet := Some sampleUser,
       userAddress := Some ''0xbbbb'', isConfigured := True\<rparr>"


text \<open>
  A key is set and cleared again before the balance query of the first call settles;
  then the query resolves to 5.
\<close>

definition staleBalance :: "event list" where
  "staleBalance =
     ready @
     [Call (UpdateUserPrivateKey sampleKey),
      Call (UpdateUserPrivateKey []),
      Settle (UserBalanceQuery sampleProvider ''0xbbbb'') (Balance (Inr 5))]"

definition clearedState :: EnvWalletState where
  "clearedState = readyState\<lparr>currentUserPrivateKey := Some []\<rparr>"

definition staleState :: EnvWalletState where
  "staleState = readyState\<lparr>currentUserPrivateKey := Some [], userBalance := Some ''5.0''\<rparr>"



section \<open>Facts about the sample inputs\<close>

lemma sampleRelayerKey_valid: "validKeyFormat sampleRelayerKey"
  by code_simp

lemma sampleKey_valid: "validKeyFormat sampleKey"
  by code_simp

lemma sampleKey_not_blank: "sampleKey \<noteq> [] \<and> trim sampleKey \<noteq> []"
  by code_simp

lemma sampleRelayerKey_not_blank: "sampleRelayerKey \<noteq> [] \<and> trim sampleRelayerKey \<noteq> []"
  by code_simp


lemma sample_addresses: "address sampleRelayer = ''0xaaaa''" "address sampleUser = ''0xbbbb''"
  by code_simp+

lemma sample_wallets:
  "newWallet sampleExt sampleRelayerKey p = Inr (sampleWallet sampleRelayerKey p)"
  "newWallet sampleExt sampleKey p = Inr (sampleWallet sampleKey p)"
  "newProvider sampleExt u = Inr (JsonRpcProvider u)"
  "formatEther sampleExt n = (if n = 7 then ''7.0'' else if n = 5 then ''5.0'' else ''1.0'')"
  by (simp_all add: sampleExt_def sampleRelayerKey_valid sampleKey_valid)

lemma sample_config:
  "sampleEnv ''VITE_RPC_URL'' = Some ''https://rpc.example''"
  "sampleEnv ''VITE_RELAYER_PRIVATE_KEY'' = Some sampleRelayerKey"
  "sampleRelayerKey \<noteq> []"
  using sampleRelayerKey_not_blank by (simp_all add: sampleEnv_def)

lemma sample_start:
  "initializeProvider_start sampleExt sampleEnv = Inr (sampleProvider, sampleRelayer)"
  by (simp add: initializeProvider_start_def sample_config sample_wallets truthy_def
      sampleProvider_def sampleRelayer_def)


lemma run_append:
  "run x e (evs @ evs') s = (case run x e evs s of None \<Rightarrow> None | Some s' \<Rightarrow> run x e evs' s')"
  by (induction evs arbitrary: s) (auto split: option.splits)


lemma readyState_run:
  "run sampleExt sampleEnv ready initialSys =
     Some \<lparr>walletState = readyState, pendingTasks = [FetchBatch]\<rparr>"
  by (simp add: ready_def mount_def initialSys_def step_def sample_start
      initializeProvider_resume_def initCommit_def readyState_def initialState_def
      sample_addresses sample_wallets)

lemma run_ready: "run sampleExt sampleEnv (ready @ evs) initialSys = run sampleExt sampleEnv evs readySys"
  by (simp add: run_append readyState_run readySys_def)



lemma install_sample:
  "updateUserPrivateKey sampleExt sampleKey readyState =
     (installedState, [UserBalanceQuery sampleProvider ''0xbbbb''])"
  using sampleKey_not_blank
  by (simp add: updateUserPrivateKey_def readyState_def initialState_def sample_wallets
      installUser_def installedState_def sample_addresses sampleUser_def[symmetric])

section \<open>The format of a key\<close>

lemma cleanKey_not_prefixed:
  assumes "length digits = 64" and "list_all hexClass digits"
  shows "take 2 digits \<noteq> ''0x''"
proof
  assume t: "take 2 digits = ''0x''"
  from assms(1) obtain a b rest where d: "digits = a # b # rest"
    by (cases digits; cases "tl digits") auto
  with t have "b = CHR ''x''" by simp
  with d assms(2) have "hexClass (CHR ''x'')" by simp
  then show False by (simp add: hexClass_def)
qed

text \<open>
  Claim C6. The format check accepts exactly the strings that are 64 hexadecimal digits
  (either case), alone or after the prefix \<open>0x\<close>; the empty string and the placeholders
  \<open>0x...\<close> and \<open>0x\<close> are rejected.
\<close>

theorem C6_key_format:
  "(validKeyFormat raw \<longleftrightarrow>
      (\<exists>digits. length digits = 64 \<and> set digits \<subseteq> set ''0123456789abcdefABCDEF'' \<and>
         (raw = digits \<or> raw = ''0x'' @ digits))) \<and>
   \<not> validKeyFormat [] \<and> \<not> validKeyFormat ''0x...'' \<and> \<not> validKeyFormat ''0x''"
proof -
  have hex: "list_all hexClass ds \<longleftrightarrow> set ds \<subseteq> set ''0123456789abcdefABCDEF''" for ds
    unfolding list_all_iff hexClass_def by blast
  have "validKeyFormat raw \<longleftrightarrow>
      (\<exists>digits. length digits = 64 \<and> list_all hexClass digits \<and>
         (raw = digits \<or> raw = ''0x'' @ digits))" (is "?l \<longleftrightarrow> ?r")
  proof
    assume v: ?l
    show ?r
    proof (cases "take 2 raw = ''0x''")
      case True
      then have "raw = ''0x'' @ drop 2 raw" by (metis append_take_drop_id)
      moreover from v True have "test64 (drop 2 raw)"
        by (simp add: validKeyFormat_def cleanKey_def)
      ultimately show ?thesis unfolding test64_def by blast
    next
      case False
      with v have "test64 raw" by (simp add: validKeyFormat_def cleanKey_def)
      then show ?thesis unfolding test64_def by blast
    qed
  next
    assume ?r
    then obtain digits where d: "length digits = 64" "list_all hexClass digits"
      and r: "raw = digits \<or> raw = ''0x'' @ digits" by blast
    from r show ?l
    proof
      assume "raw = digits"
      with d cleanKey_not_prefixed[OF d] show ?thesis
        by (simp add: validKeyFormat_def cleanKey_def test64_def)
    next
      assume "raw = ''0x'' @ digits"
      with d show ?thesis by (simp add: validKeyFormat_def cleanKey_def test64_def)
    qed
  qed
  moreover have "\<not> validKeyFormat []" "\<not> validKeyFormat ''0x...''" "\<not> validKeyFormat ''0x''"
    by (simp_all add: validKeyFormat_def cleanKey_def test64_def)
  ultimately show ?thesis by (simp add: hex)
qed

theorem C6_key_format_witness:
  "validKeyFormat sampleKey \<and> validKeyFormat sampleRelayerKey \<and> \<not> validKeyFormat ''0xabc''"
proof -
  have "\<exists>digits. length digits = 64 \<and> set digits \<subseteq> set ''0123456789abcdefABCDEF'' \<and>
          (sampleKey = digits \<or> sampleKey = ''0x'' @ digits)"
    by (rule exI[of _ "replicate 64 (CHR ''b'')"]) (simp add: sampleKey_def)
  with C6_key_format[of sampleKey] have a: "validKeyFormat sampleKey" by blast
  have "\<exists>digits. length digits = 64 \<and> set digits \<subseteq> set ''0123456789abcdefABCDEF'' \<and>
          (sampleRelayerKey = digits \<or> sampleRelayerKey = ''0x'' @ digits)"
    by (rule exI[of _ "replicate 64 (CHR ''a'')"]) (simp add: sampleRelayerKey_def)
  with C6_key_format[of sampleRelayerKey] have b: "validKeyFormat sampleRelayerKey" by blast
  have "\<not> (\<exists>digits. length digits = 64 \<and> set digits \<subseteq> set ''0123456789abcdefABCDEF'' \<and>
          (''0xabc'' = digits \<or> ''0xabc'' = ''0x'' @ digits))"
    by auto
  with C6_key_format[of "''0xabc''"] have c: "\<not> validKeyFormat ''0xabc''" by blast
  from a b c show ?thesis by blast
qed

section \<open>The batch of balance queries\<close>

lemma promise_all_Inr: "(\<And>p. p \<in> set ps \<Longrightarrow> \<not> isl p) \<Longrightarrow> promise_all ps = Inr (map projr ps)"
proof (induction ps)
  case Nil
  then show ?case by simp
next
  case (Cons p ps)
  from Cons.prems have "\<not> isl p" by simp
  then obtain v where p: "p = Inr v" by (cases p) auto
  from Cons have "promise_all ps = Inr (map projr ps)" by simp
  with p show ?case by simp
qed

lemma fetchNetwork_settles: "\<not> isl (snd (fetchNetwork x q n))"
  by (simp add: fetchNetwork_def Let_def split: sum.splits)

lemma names_distinct: "distinct (map netName (NETWORKS e))"
  by (simp add: NETWORKS_def)

lemma fold_writeEntry_other:
  "k \<notin> netName ` set ns \<Longrightarrow> fold (writeEntry x q) ns m k = m k"
  by (induction ns arbitrary: m) (auto simp: writeEntry_def split: sum.splits option.splits)

lemma fold_writeEntry_at:
  "distinct (map netName ns) \<Longrightarrow> n \<in> set ns \<Longrightarrow>
   fold (writeEntry x q) ns m (netName n) =
     (case snd (fetchNetwork x (q (netName n)) n) of Inr (Some b) \<Rightarrow> Some b | _ \<Rightarrow> m (netName n))"
proof (induction ns arbitrary: m)
  case Nil
  then show ?case by simp
next
  case (Cons a ns)
  show ?case
  proof (cases "n = a")
    case True
    with Cons.prems have "netName n \<notin> netName ` set ns" by auto
    then have "fold (writeEntry x q) ns (writeEntry x q a m) (netName n) = writeEntry x q a m (netName n)"
      by (rule fold_writeEntry_other)
    moreover have "writeEntry x q a m (netName a) =
        (case snd (fetchNetwork x (q (netName a)) a) of Inr (Some b) \<Rightarrow> Some b | _ \<Rightarrow> m (netName a))"
      by (simp add: writeEntry_def split: sum.splits option.splits)
    ultimately show ?thesis using True by (simp split: sum.splits option.splits)
  next
    case False
    with Cons.prems have n: "n \<in> set ns" and d: "distinct (map netName ns)" and ne: "netName a \<noteq> netName n"
      by auto
    have "writeEntry x q a m (netName n) = m (netName n)"
      using ne by (simp add: writeEntry_def split: sum.splits option.splits)
    with Cons.IH[OF d n, of "writeEntry x q a m"] show ?thesis by (simp split: sum.splits option.splits)
  qed
qed

lemma collect_at:
  "n \<in> set (NETWORKS e) \<Longrightarrow>
   collect x q (NETWORKS e) (netName n) =
     (case snd (fetchNetwork x (q (netName n)) n) of Inr (Some b) \<Rightarrow> Some b | _ \<Rightarrow> None)"
  unfolding collect_def by (simp add: fold_writeEntry_at[OF names_distinct])

lemma fetch_commits:
  "snd (fetchMultiNetworkBalances x e q) =
     Some (collect x q (NETWORKS e), \<lambda>prev. prev\<lparr>multiNetworkBalances := Some (collect x q (NETWORKS e))\<rparr>)"
proof -
  have "promise_all (map (\<lambda>n. snd (fetchNetwork x (q (netName n)) n)) (NETWORKS e))
        = Inr (map projr (map (\<lambda>n. snd (fetchNetwork x (q (netName n)) n)) (NETWORKS e)))"
    by (rule promise_all_Inr) (auto simp: fetchNetwork_settles)
  then show ?thesis by (simp add: fetchMultiNetworkBalances_def Let_def)
qed

lemma fetch_calls: "fst (fetchMultiNetworkBalances x e q) = callsOf x q (NETWORKS e)"
  by (simp add: fetchMultiNetworkBalances_def Let_def)

text \<open>Every enumeration of the catalog gives the same object: each name is written once.\<close>

lemma collect_order:
  assumes "set ns = set (NETWORKS e)" and "distinct (map netName ns)"
  shows "collect x q ns = collect x q (NETWORKS e)"
proof
  fix k
  show "collect x q ns k = collect x q (NETWORKS e) k"
  proof (cases "k \<in> netName ` set ns")
    case True
    then obtain n where n: "n \<in> set ns" and k: "k = netName n" by auto
    from n assms(1) have n': "n \<in> set (NETWORKS e)" by simp
    show ?thesis unfolding collect_def k
      by (simp add: fold_writeEntry_at[OF assms(2) n] fold_writeEntry_at[OF names_distinct n'])
  next
    case False
    then show ?thesis using assms(1) by (simp add: collect_def fold_writeEntry_other)
  qed
qed

lemma skipped_no_calls:
  assumes "relayerKey n = None \<or>
      (\<exists>k. relayerKey n = Some k \<and>
           (trim k = [] \<or> k = ''0x...'' \<or> k = ''0x'' \<or> \<not> validKeyFormat k))"
  shows "fetchNetwork x r n = ([], Inr None)"
  using assms by (auto simp: fetchNetwork_def noRelayerKey_def Let_def)

lemma callsOf_tag:
  assumes "distinct (map netName ns)" and "n \<in> set ns"
    and "fst (fetchNetwork x (q (netName n)) n) = []"
  shows "netName n \<notin> fst ` set (callsOf x q ns)"
proof
  assume "netName n \<in> fst ` set (callsOf x q ns)"
  then obtain n' c where n': "n' \<in> set ns" and nm: "netName n' = netName n"
    and c: "c \<in> set (fst (fetchNetwork x (q (netName n')) n'))"
    by (auto simp: callsOf_def)
  from assms(1) have "inj_on netName (set ns)" by (simp add: distinct_map)
  with n' assms(2) nm have "n' = n" by (auto dest: inj_onD)
  with c assms(3) show False by simp
qed

text \<open>
  Claim C5. A network of the catalog whose key is absent, blank, a placeholder or of the
  wrong format makes no call to a collaborator (no connection, no derivation, no query),
  and the committed mapping has no entry under its name.
\<close>

theorem C5_skipped_network:
  assumes "n \<in> set (NETWORKS e)"
    and "relayerKey n = None \<or>
      (\<exists>k. relayerKey n = Some k \<and>
           (trim k = [] \<or> k = ''0x...'' \<or> k = ''0x'' \<or> \<not> validKeyFormat k))"
  shows "netName n \<notin> fst ` set (fst (fetchMultiNetworkBalances x e q)) \<and>
         (\<exists>m u. snd (fetchMultiNetworkBalances x e q) = Some (m, u) \<and>
                 m (netName n) = None \<and>
                 (\<forall>prev. multiNetworkBalances (u prev) = Some m))"
proof -
  have f: "fetchNetwork x (q (netName n)) n = ([], Inr None)"
    by (rule skipped_no_calls[OF assms(2)])
  have "netName n \<notin> fst ` set (callsOf x q (NETWORKS e))"
    by (rule callsOf_tag[OF names_distinct assms(1)]) (simp add: f)
  moreover have "collect x q (NETWORKS e) (netName n) = None"
    by (simp add: collect_at[OF assms(1)] f)
  ultimately show ?thesis by (simp add: fetch_calls fetch_commits)
qed

theorem C5_skipped_network_witness:
  "''Polygon'' \<notin> fst ` set (fst (fetchMultiNetworkBalances sampleExt placeholderEnv ethereumDown)) \<and>
   (\<exists>m u. snd (fetchMultiNetworkBalances sampleExt placeholderEnv ethereumDown) = Some (m, u) \<and>
           m ''Polygon'' = None)"
proof -
  define n where "n = NETWORKS placeholderEnv ! 5"
  have n: "n \<in> set (NETWORKS placeholderEnv)"
    by (simp add: n_def NETWORKS_def)
  have nm: "netName n = ''Polygon''"
    by (simp add: n_def NETWORKS_def)
  have k: "relayerKey n = None \<or>
      (\<exists>k. relayerKey n = Some k \<and>
           (trim k = [] \<or> k = ''0x...'' \<or> k = ''0x'' \<or> \<not> validKeyFormat k))"
    by (simp add: n_def NETWORKS_def placeholderEnv_def or_js_def truthy_def)
  from C5_skipped_network[OF n k, of sampleExt ethereumDown] nm show ?thesis by auto
qed





section \<open>Initialisation\<close>

text \<open>
  \<open>initializeProvider\<close> is what the call and the settling of its pending work commit
  together, the second part on the state of the time it settles.
\<close>

lemma initialize_commits:
  assumes "invoke x e Initialize s = (s1, ts)"
  shows "(ts = [] \<and> s1 = initializeProvider x e net bal s) \<or>
         (\<exists>p w. ts = [AwaitInit p w] \<and> s1 = s \<and>
            (\<forall>s'. settle x e (AwaitInit p w) (NetworkAndBalance net bal) s' =
                    Some (initializeProvider x e net bal s', [])))"
  using assms by (auto simp: initializeProvider_def split: sum.splits)

text \<open>
  Claim C7. Whenever \<open>initializeProvider\<close> fails (incomplete configuration, a constructor
  that throws, or a rejected query), the update it commits sets \<open>error\<close> to a message and
  leaves every other field of the state it is applied to as it was.
\<close>

theorem C7_initialize_failure:
  assumes "initFails x e net bal"
  shows "\<exists>msg. \<forall>prev. initializeProvider x e net bal prev = prev\<lparr>error := Some msg\<rparr>"
proof (cases "initializeProvider_start x e")
  case (Inl u)
  then have "(u = initConfigError) \<or> (\<exists>err. u = initCatch err)"
    by (auto simp: initializeProvider_start_def Let_def split: if_splits sum.splits)
  with Inl show ?thesis
    by (auto simp: initializeProvider_def initConfigError_def initCatch_def)
next
  case (Inr pw)
  obtain p w where pw: "pw = (p, w)" by (cases pw)
  with Inr assms have "isl net \<or> isl bal"
    by (auto simp: initializeProvider_start_def initFails_def Let_def split: if_splits sum.splits)
  then have "\<exists>err. initializeProvider_resume x p w net bal = initCatch err"
    by (cases net; cases bal) (auto simp: initializeProvider_resume_def)
  with Inr pw show ?thesis
    by (auto simp: initializeProvider_def initCatch_def)
qed

theorem C7_initialize_failure_witness:
  "initFails sampleExt sampleEnv (Inr 56) (Inl (Error ''timeout'')) \<and>
   initializeProvider sampleExt sampleEnv (Inr 56) (Inl (Error ''timeout'')) readyState =
     readyState\<lparr>error := Some ''timeout''\<rparr> \<and>
   initFails sampleExt Map.empty (Inr 56) (Inr 1) \<and>
   provider (initializeProvider sampleExt Map.empty (Inr 56) (Inr 1) initialState) = None"
proof -
  have a: "initFails sampleExt sampleEnv (Inr 56) (Inl (Error ''timeout''))"
    by (simp add: initFails_def sample_config sample_wallets truthy_def)
  have b: "initFails sampleExt Map.empty (Inr 56) (Inr 1)"
    by (simp add: initFails_def truthy_def)
  from C7_initialize_failure[OF a] obtain msg where
    m: "\<And>prev. initializeProvider sampleExt sampleEnv (Inr 56) (Inl (Error ''timeout'')) prev = prev\<lparr>error := Some msg\<rparr>"
    by blast
  have "error (initializeProvider sampleExt sampleEnv (Inr 56) (Inl (Error ''timeout'')) initialState) = Some ''timeout''"
    by code_simp
  with m[of initialState] have "msg = ''timeout''" by simp
  with m have c: "initializeProvider sampleExt sampleEnv (Inr 56) (Inl (Error ''timeout'')) readyState =
     readyState\<lparr>error := Some ''timeout''\<rparr>" by simp
  from C7_initialize_failure[OF b] obtain msg' where
    "\<And>prev. initializeProvider sampleExt Map.empty (Inr 56) (Inr 1) prev = prev\<lparr>error := Some msg'\<rparr>"
    by blast
  then have d: "provider (initializeProvider sampleExt Map.empty (Inr 56) (Inr 1) initialState) = None"
    by (simp add: initialState_def)
  from a b c d show ?thesis by blast
qed

section \<open>The user's key\<close>

text \<open>
  Claim C9. For an empty or blank key, whatever the state (with or without a provider),
  \<open>updateUserPrivateKey\<close> commits the state with the key set to the empty string, the
  user's wallet, address and balance cleared and \<open>isConfigured\<close> false, and leaves no work
  pending; calling it again on the result gives the same state.
\<close>

theorem C9_clear_idempotent:
  assumes "raw = [] \<or> trim raw = []"
  shows "updateUserPrivateKey x raw s =
           (s\<lparr>currentUserPrivateKey := Some [], userWallet := None, userAddress := None,
              userBalance := None, isConfigured := False\<rparr>, []) \<and>
         fst (updateUserPrivateKey x raw (fst (updateUserPrivateKey x raw s))) =
           fst (updateUserPrivateKey x raw s)"
  using assms by (auto simp: updateUserPrivateKey_def clearUser_def)

theorem C9_clear_idempotent_witness:
  "updateUserPrivateKey sampleExt ''  '' readyState =
     (readyState\<lparr>currentUserPrivateKey := Some [], userWallet := None, userAddress := None,
        userBalance := None, isConfigured := False\<rparr>, []) \<and>
   fst (updateUserPrivateKey sampleExt [] initialState) =
     initialState\<lparr>currentUserPrivateKey := Some []\<rparr>"
proof -
  have b: "''  '' = [] \<or> trim ''  '' = []" by code_simp
  from C9_clear_idempotent[OF b, of sampleExt readyState]
    C9_clear_idempotent[of "[]" sampleExt initialState]
  show ?thesis by (simp add: initialState_def)
qed

text \<open>
  Claim C10. For a key that is not blank, with a provider present and a wallet derived,
  the commit that installs the wallet keeps \<open>userBalance\<close> as it was; the balance query it
  leaves pending sets \<open>userBalance\<close> when it resolves and changes nothing when it is
  rejected.
\<close>

theorem C10_install_keeps_balance:
  assumes "newPrivateKey \<noteq> []" and "trim newPrivateKey \<noteq> []"
    and "provider prev = Some p" and "newWallet x newPrivateKey p = Inr w"
  shows "\<exists>s'. updateUserPrivateKey x newPrivateKey prev = (s', [UserBalanceQuery p (address w)]) \<and>
           userWallet s' = Some w \<and> userBalance s' = userBalance prev \<and>
           (\<forall>current b. settle x e (UserBalanceQuery p (address w)) (Balance (Inr b)) current =
                Some (current\<lparr>userBalance := Some (formatEther x b)\<rparr>, [])) \<and>
           (\<forall>current err. settle x e (UserBalanceQuery p (address w)) (Balance (Inl err)) current =
                Some (current, []))"
  using assms by (simp add: updateUserPrivateKey_def installUser_def userBalanceSettles_def)

theorem C10_install_keeps_balance_witness:
  "\<exists>s'. updateUserPrivateKey sampleExt sampleKey (readyState\<lparr>userBalance := Some ''7.0''\<rparr>) =
          (s', [UserBalanceQuery sampleProvider ''0xbbbb'']) \<and>
        userWallet s' = Some sampleUser \<and> userBalance s' = Some ''7.0''"
proof -
  have k: "sampleKey \<noteq> []" "trim sampleKey \<noteq> []"
    using sampleKey_not_blank by simp_all
  have p: "provider (readyState\<lparr>userBalance := Some ''7.0''\<rparr>) = Some sampleProvider"
    by (simp add: readyState_def)
  have w: "newWallet sampleExt sampleKey sampleProvider = Inr sampleUser"
    by (simp add: sampleExt_def sampleKey_valid sampleUser_def)
  have a: "address sampleUser = ''0xbbbb''" by code_simp
  from C10_install_keeps_balance[OF k p w] a show ?thesis by auto
qed

section \<open>The fields an update leaves alone\<close>





section \<open>Waiting for the provider\<close>











section \<open>Refreshing the balances\<close>






section \<open>The flag \<open>isConfigured\<close>\<close>












section \<open>A balance without a wallet\<close>

lemma user_fields:
  "userWallet (refreshSettles x roles outcomes s) = userWallet s"
  "userAddress (refreshSettles x roles outcomes s) = userAddress s"
  "userWallet (initializeProvider_resume x p w net bal s) = userWallet s"
  "userAddress (initializeProvider_resume x p w net bal s) = userAddress s"
  by (simp_all add: refreshSettles_def mergeResults_def Let_def initializeProvider_resume_def
      initCatch_def initCommit_def split: sum.splits)

lemma user_fields_start:
  assumes "initializeProvider_start x e = Inl u"
  shows "userWallet (u s) = userWallet s" "userAddress (u s) = userAddress s"
  using assms
  by (auto simp: initializeProvider_start_def Let_def initCatch_def initConfigError_def
      split: if_splits sum.splits)

lemma user_fields_fetch:
  assumes "snd (fetchMultiNetworkBalances x e q) = Some (m, u)"
  shows "userWallet (u s) = userWallet s" "userAddress (u s) = userAddress s"
  using assms by (auto simp: fetchMultiNetworkBalances_def Let_def split: sum.splits)

lemma invoke_addressFollows:
  assumes "invoke x e c s = (s', ts)" and "addressFollows s"
  shows "addressFollows s'"
proof (cases c)
  case Initialize
  with assms show ?thesis
    by (auto simp: addressFollows_def user_fields_start split: sum.splits prod.splits)
next
  case (UpdateUserPrivateKey k)
  with assms show ?thesis
    by (auto simp: addressFollows_def updateUserPrivateKey_def clearUser_def installUser_def
        userCatch_def split: if_splits option.splits sum.splits)
next
  case RefreshBalances
  with assms show ?thesis by (auto simp: refreshBalances_def split: option.splits)
next
  case FetchMultiNetworkBalances
  with assms show ?thesis by auto
qed

lemma settle_addressFollows:
  assumes "settle x e t r s = Some (s', ts)" and "addressFollows s"
  shows "addressFollows s'"
proof (cases t)
  case (AwaitInit p w)
  with assms show ?thesis
    by (cases r) (auto simp: addressFollows_def user_fields)
next
  case (RetryTimer d k)
  with assms have "invoke x e (UpdateUserPrivateKey k) s = (s', ts)" by (cases r) auto
  from invoke_addressFollows[OF this assms(2)] show ?thesis .
next
  case (UserBalanceQuery p a)
  with assms show ?thesis
    by (cases r) (auto simp: addressFollows_def userBalanceSettles_def split: sum.splits)
next
  case (RefreshQueries p qs)
  with assms show ?thesis
    by (cases r) (auto simp: addressFollows_def user_fields split: if_splits)
next
  case FetchBatch
  with assms show ?thesis
    by (cases r) (auto simp: addressFollows_def user_fields_fetch split: option.splits)
qed

lemma step_addressFollows:
  assumes "step x e ev s = Some s'" and "addressFollows (walletState s)"
  shows "addressFollows (walletState s')"
  using assms
  by (cases ev) (auto simp: step_def split: prod.splits if_splits option.splits
      dest: invoke_addressFollows settle_addressFollows)

text \<open>
  The address does follow the wallet: in every state reached from the initial one, there
  is no user address without a user wallet.
\<close>

lemma run_addressFollows:
  "run x e evs s = Some s' \<Longrightarrow> addressFollows (walletState s) \<Longrightarrow> addressFollows (walletState s')"
proof (induction evs arbitrary: s)
  case Nil
  then show ?case by simp
next
  case (Cons ev evs)
  then show ?case by (auto split: option.splits dest: step_addressFollows)
qed

lemma address_follows_wallet:
  assumes "run x e evs initialSys = Some s" and "userWallet (walletState s) = None"
  shows "userAddress (walletState s) = None"
proof -
  have "addressFollows (walletState initialSys)"
    by (simp add: addressFollows_def initialSys_def initialState_def)
  from run_addressFollows[OF assms(1) this] assms(2) show ?thesis
    by (simp add: addressFollows_def)
qed

text \<open>
  Claim C2, evaluated on the run \<open>staleBalance\<close>: the balance query of a key that has been
  cleared since resolves and is merged, so the committed state has a user balance and no
  user wallet.
\<close>

theorem C2_stale_balance:
  "run sampleExt sampleEnv staleBalance initialSys =
     Some \<lparr>walletState = staleState, pendingTasks = [FetchBatch]\<rparr> \<and>
   userWallet staleState = None \<and> userAddress staleState = None \<and>
   userBalance staleState = Some ''5.0''"
proof -
  have a: "updateUserPrivateKey sampleExt [] installedState = (clearedState, [])"
    by (simp add: updateUserPrivateKey_def clearUser_def installedState_def clearedState_def
        readyState_def initialState_def)
  have b: "userBalanceSettles sampleExt (Inr 5) clearedState = staleState"
    by (simp add: userBalanceSettles_def clearedState_def staleState_def sample_wallets)
  have "run sampleExt sampleEnv staleBalance initialSys =
     Some \<lparr>walletState = staleState, pendingTasks = [FetchBatch]\<rparr>"
    by (simp add: staleBalance_def run_ready readySys_def step_def install_sample a b)
  moreover have "userWallet staleState = None \<and> userAddress staleState = None \<and>
      userBalance staleState = Some ''5.0''"
    by (simp add: staleState_def readyState_def initialState_def)
  ultimately show ?thesis by simp
qed

end
